theory Spec2Isabelle
  imports Complex_Main "HOL-Library.Word"
begin

unbundle bit_operations_syntax

section \<open>JavaScript string and number primitives used by the simulator\<close>

text \<open>
  Strings are byte strings (\<^typ>\<open>string\<close>): an ASCII character is one byte, a non-ASCII
  one its UTF-8 bytes. Equality and splitting at \<open>.\<close> agree with JavaScript on such
  strings. White space is the ASCII part of JavaScript's \<open>WhiteSpace\<close> and
  \<open>LineTerminator\<close> classes (TAB, LF, VT, FF, CR, SP).
\<close>

definition is_js_space :: "char \<Rightarrow> bool" where
  "is_js_space c \<longleftrightarrow> c \<in> set [CHR 0x09, CHR 0x0A, CHR 0x0B, CHR 0x0C, CHR 0x0D, CHR 0x20]"

text \<open>\<open>String.prototype.trim\<close>.\<close>

definition js_trim :: "string \<Rightarrow> string" where
  "js_trim s = rev (dropWhile is_js_space (rev (dropWhile is_js_space s)))"

text \<open>
  \<open>s.split('.')\<close>: the pieces between the dots, in order; never empty (the empty string
  gives one empty piece). The \<open>[]\<close> branch of the case is unreachable.
\<close>

fun split_dot :: "string \<Rightarrow> string list" where
  "split_dot [] = [[]]"
| "split_dot (c # cs) =
     (if c = CHR ''.'' then [] # split_dot cs
      else (case split_dot cs of [] \<Rightarrow> [[c]] | p # ps \<Rightarrow> (c # p) # ps))"


text \<open>Reading an array element: \<open>parts[i]\<close> is \<open>undefined\<close> beyond the end.\<close>

definition at_index :: "'a list \<Rightarrow> nat \<Rightarrow> 'a option" where
  "at_index xs i = (if i < length xs then Some (xs ! i) else None)"

text \<open>A template hole \<open>${parts[i]}\<close>: \<open>undefined\<close> prints as the word itself.\<close>

definition tmpl :: "string option \<Rightarrow> string" where
  "tmpl v = (case v of None \<Rightarrow> ''undefined'' | Some s \<Rightarrow> s)"

subsection \<open>Digits\<close>

definition digit_value :: "char \<Rightarrow> nat option" where
  "digit_value c =
     (let n = (of_char c :: nat) in
      if 48 \<le> n \<and> n \<le> 57 then Some (n - 48)
      else if 97 \<le> n \<and> n \<le> 122 then Some (n - 87)
      else if 65 \<le> n \<and> n \<le> 90 then Some (n - 55)
      else None)"

definition is_digit_in :: "nat \<Rightarrow> char \<Rightarrow> bool" where
  "is_digit_in radix c = (case digit_value c of None \<Rightarrow> False | Some v \<Rightarrow> v < radix)"

definition digits_value :: "nat \<Rightarrow> string \<Rightarrow> nat" where
  "digits_value radix ds =
     foldl (\<lambda>acc c. acc * radix + (case digit_value c of None \<Rightarrow> 0 | Some v \<Rightarrow> v)) 0 ds"



subsection \<open>\<open>parseInt(s)\<close> with no radix\<close>

text \<open>
  Leading white space is skipped, one sign is read, a \<open>0x\<close>/\<open>0X\<close> prefix selects radix 16
  (otherwise 10), and the longest run of digits of that radix is the value; anything
  after it is ignored. No digit at all gives \<open>NaN\<close>, here \<open>None\<close>.
\<close>

definition js_parseInt :: "string \<Rightarrow> int option" where
  "js_parseInt s =
     (let s1 = dropWhile is_js_space s;
          neg = (case s1 of [] \<Rightarrow> False | c # _ \<Rightarrow> c = CHR ''-'');
          s2 = (case s1 of [] \<Rightarrow> s1
                | c # cs \<Rightarrow> if c = CHR ''+'' \<or> c = CHR ''-'' then cs else s1);
          hex = (take 2 s2 = ''0x'' \<or> take 2 s2 = ''0X'');
          radix = (if hex then 16 else 10);
          s3 = (if hex then drop 2 s2 else s2);
          z = takeWhile (is_digit_in radix) s3
      in if z = [] then None
         else Some ((if neg then - 1 else 1) * int (digits_value radix z)))"

subsection \<open>\<open>Number(s)\<close> on a piece of a dotted string\<close>









section \<open>utils/subnetUtils.ts\<close>


text \<open>
  \<open>validateIPAddress(ip)\<close>. The pattern \<open>^(\d{1,3})\.(\d{1,3})\.(\d{1,3})\.(\d{1,3})$\<close>
  matches exactly the strings whose split at the dots has four pieces of one to three
  decimal digits each; the pieces are the groups.
\<close>

datatype AddressError =
    EmptyAddress
  | BadFormat
  | SegmentOutOfRange nat int
  | LeadingZeroOctet
  | Loopback
  | LeadingBroadcast
  | NetworkAddress
  | BroadcastAddress

definition matches_ipPattern :: "string \<Rightarrow> bool" where
  "matches_ipPattern ip =
     (let groups = split_dot ip in
      length groups = 4 \<and>
      list_all (\<lambda>g. 1 \<le> length g \<and> length g \<le> 3 \<and> list_all (is_digit_in 10) g) groups)"

text \<open>The range loop: the first segment outside 0..255 is reported with its position.\<close>

fun first_out_of_range :: "nat \<Rightarrow> int option list \<Rightarrow> (nat \<times> int) option" where
  "first_out_of_range i [] = None"
| "first_out_of_range i (None # segs) = first_out_of_range (Suc i) segs"
| "first_out_of_range i (Some v # segs) =
     (if v < 0 \<or> v > 255 then Some (Suc i, v) else first_out_of_range (Suc i) segs)"

definition validateIPAddress :: "string \<Rightarrow> AddressError option" where
  "validateIPAddress ip =
     (if ip = [] \<or> js_trim ip = [] then Some EmptyAddress
      else if \<not> matches_ipPattern ip then Some BadFormat
      else
        (let segments = map js_parseInt (split_dot ip) in
         case first_out_of_range 0 segments of
           Some (i, v) \<Rightarrow> Some (SegmentOutOfRange i v)
         | None \<Rightarrow>
             if at_index segments 0 = Some (Some 0) then Some LeadingZeroOctet
             else if at_index segments 0 = Some (Some 127) then Some Loopback
             else if at_index segments 0 = Some (Some 255) then Some LeadingBroadcast
             else if at_index segments 3 = Some (Some 0) then Some NetworkAddress
             else if at_index segments 3 = Some (Some 255) then Some BroadcastAddress
             else None))"

section \<open>The store's subnet helper\<close>

definition DEFAULT_SUBNET_MASK :: string where
  "DEFAULT_SUBNET_MASK = ''255.255.255.0''"


section \<open>types/index.ts\<close>

text \<open>
  The device kinds \<open>'router' | 'pc' | 'server' | 'dns' | 'web'\<close>. Record fields whose
  source name is a constant of the library carry a prefix. Fields that none of the
  modelled functions reads (\<open>position\<close>, \<open>gateway\<close>, \<open>dnsServer\<close>) are left out. An
  optional field is an \<open>option\<close>; \<open>interfaces\<close> is declared mandatory, and every optional
  chaining on it treats a missing array as the empty one.
\<close>

datatype DeviceType = Router | PC | Server | DNS | Web

fun typeString :: "DeviceType \<Rightarrow> string" where
  "typeString Router = ''router''"
| "typeString PC = ''pc''"
| "typeString Server = ''server''"
| "typeString DNS = ''dns''"
| "typeString Web = ''web''"

definition js_toUpperCase :: "string \<Rightarrow> string" where
  "js_toUpperCase s =
     map (\<lambda>c. if 97 \<le> (of_char c :: nat) \<and> (of_char c :: nat) \<le> 122
               then char_of ((of_char c :: nat) - 32) else c) s"

record NetworkInterface =
  iface_id :: "string option"
  iface_name :: string
  iface_ip :: string
  iface_subnet :: "string option"
  iface_subnetMask :: "string option"
  iface_connectedTo :: "string option"

record RouteEntry =
  destination :: string
  nextHop :: string
  metric :: int
  out_interface :: string

record DNSRecord =
  rec_id :: string
  rec_domain :: string
  rec_ip :: string

record Device =
  dev_id :: string
  dev_name :: string
  dev_type :: DeviceType
  dev_ip :: string
  interfaces :: "NetworkInterface list"
  routingTable :: "RouteEntry list option"
  dnsRecords :: "DNSRecord list option"
  webContent :: "string option"
  dev_domain :: "string option"
  port :: "int option"

record Connection =
  conn_id :: string
  source :: string
  target :: string
  sourceInterfaceId :: "string option"
  targetInterfaceId :: "string option"

subsection \<open>Results\<close>

text \<open>
  Messages and step descriptions are template strings in the source; each template is
  a constructor here and its holes are the arguments, in the order of the template.
  The reason of a failed route attempt:
  \<^item> \<open>TargetMissing ip\<close>: the target address belongs to no device;
  \<^item> \<open>NoInterfaceForNetwork\<close>: the router has no interface in the target network;
  \<^item> \<open>LinkDown\<close>: no physical connection;
  \<^item> \<open>NextRouterMissing\<close>: the next hop names no device;
  \<^item> \<open>NotARouter t\<close>: the next hop is a device of kind \<open>t\<close>;
  \<^item> \<open>NoCommonNetwork\<close>: the two routers share no network.
\<close>

datatype FailReason =
    TargetMissing string
  | NoInterfaceForNetwork
  | LinkDown
  | NextRouterMissing
  | NotARouter DeviceType
  | NoCommonNetwork

record FailedRoute =
  failed_nextHop :: string
  failed_metric :: int
  reason :: FailReason

text \<open>
  The step descriptions: an endpoint hands the packet to its gateway
  (\<open>SendToGateway label gateway\<close>); a router falls back to a later route after the listed
  ones, each printed as next hop and metric only (\<open>BackupRoute skipped nextHop metric\<close>);
  a router uses its best route (\<open>RouteLookup network nextHop metric\<close>).
\<close>

datatype Action =
    SendToGateway string string
  | BackupRoute "(string \<times> int) list" string int
  | RouteLookup string string int

record Step =
  router :: string
  action :: Action
  routeEntry :: "RouteEntry option"

text \<open>
  The messages of \<open>simulateRouting\<close>, in the order of the source, and those of the DNS
  and HTTP actions of the store.
\<close>

datatype Message =
    SourceFormatError string
  | DestFormatError string
  | SourceNotFound string
  | SameDevice
  | Arrived nat
  | NoGateway string string string
  | NoLinkToGateway string string
  | EmptyRoutingTable string
  | NoMatchingRoute string string string "string list"
  | AllRoutesFailed string string "FailedRoute list"
  | CannotForward string
  | LoopDetected string "string list"
  | HopLimitExceeded nat
  | DnsSourceMissing string
  | DnsNotADnsServer string string DeviceType
  | DnsServerMissing string
  | DnsWrongEndpoint "string option" "DeviceType option" string string
  | DnsDone string string string string
  | HttpNotAWebServer string string DeviceType
  | HttpTargetMissing string
  | HttpWrongEndpoint "string option" "DeviceType option" string string
  | HttpSummary bool int "string option"

record SimulationResult =
  success :: bool
  path :: "string list"
  message :: Message
  steps :: "Step list"



text \<open>The only exception the modelled code can raise: reading a field of \<open>undefined\<close>.\<close>

datatype JsError = TypeError

section \<open>The routing simulation of the store (App.tsx)\<close>

text \<open>\<open>getNetwork(ip)\<close>: the first three pieces and \<open>.0\<close>; a missing piece prints \<open>undefined\<close>.\<close>

definition getNetwork :: "string \<Rightarrow> string" where
  "getNetwork ip =
     (let parts = split_dot ip in
      tmpl (at_index parts 0) @ ''.'' @ tmpl (at_index parts 1) @ ''.''
      @ tmpl (at_index parts 2) @ ''.0'')"

definition hasPhysicalConnection :: "Device \<Rightarrow> Device \<Rightarrow> Connection list \<Rightarrow> bool" where
  "hasPhysicalConnection deviceA deviceB connections =
     list_ex (\<lambda>c. (source c = dev_id deviceA \<and> target c = dev_id deviceB) \<or>
                  (source c = dev_id deviceB \<and> target c = dev_id deviceA)) connections"

definition validateIP :: "string \<Rightarrow> bool" where
  "validateIP ip =
     (let parts = split_dot ip in
      if length parts \<noteq> 4 then False
      else list_all (\<lambda>part. case js_parseInt part of
                               None \<Rightarrow> False
                             | Some num \<Rightarrow> 0 \<le> num \<and> num \<le> 255) parts)"

definition maxHops :: nat where
  "maxHops = 10"

text \<open>The label of a direct route, the two-character word of the source, as UTF-8.\<close>

definition directLabel :: string where
  "directLabel = [CHR 0xE7, CHR 0x9B, CHR 0xB4, CHR 0xE8, CHR 0xBF, CHR 0x9E]"

definition isDirect :: "string \<Rightarrow> bool" where
  "isDirect hop \<longleftrightarrow> hop = ''-'' \<or> hop = directLabel \<or> hop = ''0.0.0.0''"

definition endpointLabel :: "Device \<Rightarrow> string" where
  "endpointLabel d =
     (if dev_type d = PC then ''PC '' @ dev_name d
      else js_toUpperCase (typeString (dev_type d)) @ '' '' @ dev_name d)"

text \<open>The default gateway of an endpoint: the first router with an interface in its network.\<close>

definition findGateway :: "Device list \<Rightarrow> string \<Rightarrow> Device option" where
  "findGateway devices currentNetwork =
     find (\<lambda>d. dev_type d = Router \<and>
                list_ex (\<lambda>iface. getNetwork (iface_ip iface) = currentNetwork) (interfaces d))
          devices"

text \<open>The next router of a route: by name first, then by interface address.\<close>

definition findNextRouter :: "Device list \<Rightarrow> string \<Rightarrow> Device option" where
  "findNextRouter devices hop =
     (case find (\<lambda>d. dev_name d = hop) devices of
        Some d \<Rightarrow> Some d
      | None \<Rightarrow>
          find (\<lambda>d. dev_type d = Router \<and> list_ex (\<lambda>iface. iface_ip iface = hop) (interfaces d))
               devices)"

text \<open>The two nested loops with \<open>break\<close> over the interfaces of both routers.\<close>

definition hasCommonNetwork :: "Device \<Rightarrow> Device \<Rightarrow> bool" where
  "hasCommonNetwork currentDevice nextRouter =
     list_ex (\<lambda>currentIface.
                list_ex (\<lambda>nextIface.
                           getNetwork (iface_ip currentIface) = getNetwork (iface_ip nextIface))
                        (interfaces nextRouter))
             (interfaces currentDevice)"

text \<open>
  The body of the loop over the sorted candidates, for one candidate: \<open>None\<close> when the
  route is usable (the source sets \<open>route\<close> and breaks), else the record pushed on
  \<open>failedRoutes\<close> before \<open>continue\<close>.
\<close>

definition checkRoute ::
  "Device list \<Rightarrow> Connection list \<Rightarrow> Device \<Rightarrow> string \<Rightarrow> RouteEntry \<Rightarrow> FailedRoute option" where
  "checkRoute devices connections currentDevice destIP candidateRoute =
     (if isDirect (nextHop candidateRoute) then
        (case find (\<lambda>d. dev_ip d = destIP) devices of
           None \<Rightarrow>
             Some \<lparr>failed_nextHop = directLabel, failed_metric = metric candidateRoute,
                   reason = TargetMissing destIP\<rparr>
         | Some destDevice \<Rightarrow>
             if \<not> list_ex (\<lambda>iface. getNetwork (iface_ip iface) = getNetwork destIP)
                          (interfaces currentDevice)
             then Some \<lparr>failed_nextHop = directLabel, failed_metric = metric candidateRoute,
                        reason = NoInterfaceForNetwork\<rparr>
             else if \<not> hasPhysicalConnection currentDevice destDevice connections
             then Some \<lparr>failed_nextHop = directLabel, failed_metric = metric candidateRoute,
                        reason = LinkDown\<rparr>
             else None)
      else
        (case findNextRouter devices (nextHop candidateRoute) of
           None \<Rightarrow>
             Some \<lparr>failed_nextHop = nextHop candidateRoute,
                   failed_metric = metric candidateRoute, reason = NextRouterMissing\<rparr>
         | Some nextRouter \<Rightarrow>
             if dev_type nextRouter \<noteq> Router
             then Some \<lparr>failed_nextHop = nextHop candidateRoute,
                        failed_metric = metric candidateRoute,
                        reason = NotARouter (dev_type nextRouter)\<rparr>
             else if \<not> hasPhysicalConnection currentDevice nextRouter connections
             then Some \<lparr>failed_nextHop = nextHop candidateRoute,
                        failed_metric = metric candidateRoute, reason = LinkDown\<rparr>
             else if \<not> hasCommonNetwork currentDevice nextRouter
             then Some \<lparr>failed_nextHop = nextHop candidateRoute,
                        failed_metric = metric candidateRoute, reason = NoCommonNetwork\<rparr>
             else None))"

text \<open>
  The loop \<open>for (const candidateRoute of sortedRoutes)\<close>: the chosen route, if any, and
  \<open>failedRoutes\<close>.
\<close>

fun tryRoutes ::
  "Device list \<Rightarrow> Connection list \<Rightarrow> Device \<Rightarrow> string \<Rightarrow> RouteEntry list \<Rightarrow> FailedRoute list
   \<Rightarrow> RouteEntry option \<times> FailedRoute list" where
  "tryRoutes devices connections currentDevice destIP [] failedRoutes = (None, failedRoutes)"
| "tryRoutes devices connections currentDevice destIP (candidateRoute # rest) failedRoutes =
     (case checkRoute devices connections currentDevice destIP candidateRoute of
        None \<Rightarrow> (Some candidateRoute, failedRoutes)
      | Some failed \<Rightarrow>
          tryRoutes devices connections currentDevice destIP rest (failedRoutes @ [failed]))"

text \<open>
  The candidates of a router: the routes whose destination is the target address,
  or else those whose destination is its network, sorted by \<open>Array.prototype.sort\<close>
  with the comparator \<open>a.metric - b.metric\<close>, which is stable.
\<close>

definition matchingRoutes :: "RouteEntry list \<Rightarrow> string \<Rightarrow> RouteEntry list" where
  "matchingRoutes table destIP =
     (let exact = filter (\<lambda>r. destination r = destIP) table in
      if length exact = 0 then filter (\<lambda>r. destination r = getNetwork destIP) table
      else exact)"

definition sortedRoutes :: "RouteEntry list \<Rightarrow> string \<Rightarrow> RouteEntry list" where
  "sortedRoutes table destIP = sort_key metric (matchingRoutes table destIP)"

text \<open>
  What one turn of the \<open>while\<close> loop does before the loop check: it returns from
  \<open>simulateRouting\<close> (a result, or the exception), or it sets \<open>nextDevice\<close> (which the
  non-null assertion on the second look-up of the next router may leave undefined) and
  has pushed its steps.
\<close>

datatype HopOutcome =
    Finished "JsError + SimulationResult"
  | Forward "Device option" "Step list"

text \<open>An endpoint (any device that is not a router) looks for its default gateway.\<close>

definition endpointHop ::
  "Device list \<Rightarrow> Connection list \<Rightarrow> bool \<Rightarrow> Device \<Rightarrow> string list \<Rightarrow> Step list \<Rightarrow> HopOutcome" where
  "endpointHop devices connections showSteps currentDevice curPath curSteps =
     (let currentNetwork = getNetwork (dev_ip currentDevice) in
      case findGateway devices currentNetwork of
        None \<Rightarrow>
          Finished (Inr \<lparr>success = False, path = curPath,
                          message = NoGateway (endpointLabel currentDevice) (dev_ip currentDevice)
                                      currentNetwork,
                          steps = curSteps\<rparr>)
      | Some gateway \<Rightarrow>
          if \<not> hasPhysicalConnection currentDevice gateway connections
          then Finished (Inr \<lparr>success = False, path = curPath,
                               message = NoLinkToGateway (endpointLabel currentDevice)
                                           (dev_name gateway),
                               steps = curSteps\<rparr>)
          else Forward (Some gateway)
                 (if showSteps
                  then curSteps @ [\<lparr>router = dev_name currentDevice,
                                     action = SendToGateway (endpointLabel currentDevice)
                                                (dev_name gateway),
                                     routeEntry = None\<rparr>]
                  else curSteps))"

text \<open>
  What a router does with the route the loop over the candidates has chosen: it pushes
  the step of the hop, and delivers (a direct route) or names the next router.
  \<open>sortedRoutes.indexOf(route)\<close> compares object identities, and \<open>route\<close> is the element
  at which the loop stopped, after one push on \<open>failedRoutes\<close> for each element before
  it: the index is the length of \<open>failedRoutes\<close>.
\<close>

definition followRoute ::
  "Device list \<Rightarrow> string \<Rightarrow> bool \<Rightarrow> Device \<Rightarrow> nat \<Rightarrow> string list \<Rightarrow> Step list \<Rightarrow> RouteEntry
   \<Rightarrow> FailedRoute list \<Rightarrow> HopOutcome" where
  "followRoute devices destIP showSteps currentDevice hopCount curPath curSteps route
     failedRoutes =
     (let routeIndex = length failedRoutes;
          steps1 =
            (if routeIndex > 0 \<and> showSteps
             then curSteps @
                  [\<lparr>router = dev_name currentDevice,
                    action = BackupRoute
                               (map (\<lambda>f. (failed_nextHop f, failed_metric f))
                                    (take routeIndex failedRoutes))
                               (nextHop route) (metric route),
                    routeEntry = Some route\<rparr>]
             else curSteps);
          steps2 =
            (if showSteps \<and> routeIndex = 0
             then steps1 @
                  [\<lparr>router = dev_name currentDevice,
                    action = RouteLookup (getNetwork destIP) (nextHop route) (metric route),
                    routeEntry = Some route\<rparr>]
             else steps1)
      in if isDirect (nextHop route)
         then (case find (\<lambda>d. dev_ip d = destIP) devices of
                 None \<Rightarrow> Finished (Inl TypeError)
               | Some destDevice \<Rightarrow>
                   Finished (Inr \<lparr>success = True, path = curPath @ [dev_name destDevice],
                                   message = Arrived hopCount, steps = steps2\<rparr>))
         else Forward (findNextRouter devices (nextHop route)) steps2)"

text \<open>A router looks its table up, tries the candidates in order and follows the first
  usable one.\<close>

definition routerHop ::
  "Device list \<Rightarrow> Connection list \<Rightarrow> string \<Rightarrow> bool \<Rightarrow> Device \<Rightarrow> nat \<Rightarrow> string list \<Rightarrow> Step list
   \<Rightarrow> HopOutcome" where
  "routerHop devices connections destIP showSteps currentDevice hopCount curPath curSteps =
     (case routingTable currentDevice of
        None \<Rightarrow>
          Finished (Inr \<lparr>success = False, path = curPath,
                          message = EmptyRoutingTable (dev_name currentDevice),
                          steps = curSteps\<rparr>)
      | Some table \<Rightarrow>
          if length table = 0
          then Finished (Inr \<lparr>success = False, path = curPath,
                               message = EmptyRoutingTable (dev_name currentDevice),
                               steps = curSteps\<rparr>)
          else if length (matchingRoutes table destIP) = 0
          then Finished (Inr \<lparr>success = False, path = curPath,
                               message = NoMatchingRoute (dev_name currentDevice) destIP
                                           (getNetwork destIP) (map destination table),
                               steps = curSteps\<rparr>)
          else
            (case tryRoutes devices connections currentDevice destIP
                    (sortedRoutes table destIP) [] of
               (None, failedRoutes) \<Rightarrow>
                 Finished (Inr \<lparr>success = False, path = curPath,
                                 message = AllRoutesFailed (dev_name currentDevice) destIP
                                             failedRoutes,
                                 steps = curSteps\<rparr>)
             | (Some route, failedRoutes) \<Rightarrow>
                 followRoute devices destIP showSteps currentDevice hopCount curPath curSteps
                   route failedRoutes))"

definition hop ::
  "Device list \<Rightarrow> Connection list \<Rightarrow> string \<Rightarrow> bool \<Rightarrow> Device \<Rightarrow> nat \<Rightarrow> string list \<Rightarrow> Step list
   \<Rightarrow> HopOutcome" where
  "hop devices connections destIP showSteps currentDevice hopCount curPath curSteps =
     (if dev_type currentDevice \<noteq> Router
      then endpointHop devices connections showSteps currentDevice curPath curSteps
      else routerHop devices connections destIP showSteps currentDevice hopCount curPath
             curSteps)"

text \<open>
  The loop \<open>while (hopCount < maxHops)\<close> with its state: the current device, the hop
  count, the path, the steps and the set of visited device ids (kept in insertion
  order, as a JavaScript \<open>Set\<close> does).
\<close>

function routingLoop ::
  "Device list \<Rightarrow> Connection list \<Rightarrow> string \<Rightarrow> bool \<Rightarrow> Device \<Rightarrow> nat \<Rightarrow> string list \<Rightarrow> Step list
   \<Rightarrow> string list \<Rightarrow> JsError + SimulationResult" where
  "routingLoop devices connections destIP showSteps currentDevice hopCount curPath curSteps
     visitedDevices =
     (if hopCount < maxHops then
        (if dev_ip currentDevice = destIP
         then Inr \<lparr>success = True, path = curPath, message = Arrived hopCount,
                   steps = curSteps\<rparr>
         else
           (case hop devices connections destIP showSteps currentDevice hopCount curPath
                   curSteps of
              Finished r \<Rightarrow> r
            | Forward None newSteps \<Rightarrow>
                Inr \<lparr>success = False, path = curPath,
                     message = CannotForward (dev_name currentDevice), steps = newSteps\<rparr>
            | Forward (Some nextDevice) newSteps \<Rightarrow>
                if dev_id nextDevice \<in> set visitedDevices
                then Inr \<lparr>success = False, path = curPath,
                          message = LoopDetected (dev_name nextDevice) curPath,
                          steps = newSteps\<rparr>
                else routingLoop devices connections destIP showSteps nextDevice (Suc hopCount)
                       (curPath @ [dev_name nextDevice]) newSteps
                       (visitedDevices @ [dev_id nextDevice])))
      else Inr \<lparr>success = False, path = curPath, message = HopLimitExceeded maxHops,
                steps = curSteps\<rparr>)"
  by pat_completeness auto
termination
  by (relation "measure (\<lambda>(devices, connections, destIP, showSteps, currentDevice, hopCount,
                            curPath, curSteps, visitedDevices). maxHops - hopCount)") auto

text \<open>\<open>simulateRouting(devices, connections, sourceIP, destIP, showSteps = false)\<close>.\<close>

definition simulateRouting ::
  "Device list \<Rightarrow> Connection list \<Rightarrow> string \<Rightarrow> string \<Rightarrow> bool \<Rightarrow> JsError + SimulationResult" where
  "simulateRouting devices connections sourceIP destIP showSteps =
     (if \<not> validateIP sourceIP
      then Inr \<lparr>success = False, path = [], message = SourceFormatError sourceIP, steps = []\<rparr>
      else if \<not> validateIP destIP
      then Inr \<lparr>success = False, path = [], message = DestFormatError destIP, steps = []\<rparr>
      else
        (case find (\<lambda>d. dev_ip d = sourceIP) devices of
           None \<Rightarrow>
             Inr \<lparr>success = False, path = [], message = SourceNotFound sourceIP, steps = []\<rparr>
         | Some sourceDevice \<Rightarrow>
             if sourceIP = destIP
             then Inr \<lparr>success = True, path = [dev_name sourceDevice], message = SameDevice,
                       steps = []\<rparr>
             else routingLoop devices connections destIP showSteps sourceDevice 0
                    [dev_name sourceDevice] [] [dev_id sourceDevice]))"

section \<open>The DNS and HTTP actions of the store (App.tsx)\<close>







section \<open>utils/dnsResolver.ts: \<open>HTTPHandler.validateAndFetchWebServer\<close>\<close>






section \<open>Backbone allocation of the store (App.tsx)\<close>








section \<open>Auxiliary definitions for the statements\<close>


text \<open>A device with one interface \<open>eth0\<close> on its own address, for the concrete instances.\<close>

definition endpointDevice :: "string \<Rightarrow> string \<Rightarrow> DeviceType \<Rightarrow> string \<Rightarrow> Device" where
  "endpointDevice i n t a =
     \<lparr>dev_id = i, dev_name = n, dev_type = t, dev_ip = a,
      interfaces = [\<lparr>iface_id = None, iface_name = ''eth0'', iface_ip = a,
                     iface_subnet = None, iface_subnetMask = Some ''255.255.255.0'',
                     iface_connectedTo = None\<rparr>],
      routingTable = None, dnsRecords = None, webContent = None, dev_domain = None,
      port = None\<rparr>"

text \<open>Constructors for the concrete topologies of the instances below.\<close>

definition mkInterface :: "string \<Rightarrow> string \<Rightarrow> NetworkInterface" where
  "mkInterface n a =
     \<lparr>iface_id = None, iface_name = n, iface_ip = a, iface_subnet = None,
      iface_subnetMask = Some ''255.255.255.0'', iface_connectedTo = None\<rparr>"

definition mkRoute :: "string \<Rightarrow> string \<Rightarrow> int \<Rightarrow> RouteEntry" where
  "mkRoute d h m = \<lparr>destination = d, nextHop = h, metric = m, out_interface = ''LAN''\<rparr>"

definition mkRouter :: "string \<Rightarrow> string \<Rightarrow> NetworkInterface list \<Rightarrow> RouteEntry list \<Rightarrow> Device" where
  "mkRouter n a ifs table =
     \<lparr>dev_id = n, dev_name = n, dev_type = Router, dev_ip = a, interfaces = ifs,
      routingTable = Some table, dnsRecords = None, webContent = None, dev_domain = None,
      port = None\<rparr>"

definition mkLink :: "string \<Rightarrow> string \<Rightarrow> Connection" where
  "mkLink a b =
     \<lparr>conn_id = a @ ''-'' @ b, source = a, target = b, sourceInterfaceId = None,
      targetInterfaceId = None\<rparr>"





text \<open>
  Two names are linked when devices of the snapshot bearing them have a physical
  connection; a path is a chain when each name is linked to the next.
\<close>

definition linked :: "Device list \<Rightarrow> Connection list \<Rightarrow> string \<Rightarrow> string \<Rightarrow> bool" where
  "linked devices connections a b \<longleftrightarrow>
     (\<exists>da \<in> set devices. \<exists>db \<in> set devices.
        dev_name da = a \<and> dev_name db = b \<and> hasPhysicalConnection da db connections)"

fun chain :: "Device list \<Rightarrow> Connection list \<Rightarrow> string list \<Rightarrow> bool" where
  "chain devices connections [] = True"
| "chain devices connections [a] = True"
| "chain devices connections (a # b # rest) =
     (linked devices connections a b \<and> chain devices connections (b # rest))"

text \<open>
  A router \<open>R1\<close> with two routes to the network \<open>192.168.2.0\<close>: the better one through
  \<open>R2\<close>, to which it has no cable, the other through \<open>R3\<close>.
\<close>

definition viaR2 :: RouteEntry where
  "viaR2 = mkRoute ''192.168.2.0'' ''R2'' 1"

definition viaR3 :: RouteEntry where
  "viaR3 = mkRoute ''192.168.2.0'' ''R3'' 2"

definition fallbackR1 :: Device where
  "fallbackR1 =
     mkRouter ''R1'' ''192.168.1.1''
       [mkInterface ''LAN'' ''192.168.1.1'', mkInterface ''eth1'' ''10.0.0.1'',
        mkInterface ''eth2'' ''10.0.1.1'']
       [viaR3, viaR2, mkRoute ''192.168.1.0'' ''-'' 0]"

definition fallbackR3 :: Device where
  "fallbackR3 =
     mkRouter ''R3'' ''192.168.2.1''
       [mkInterface ''LAN'' ''192.168.2.1'', mkInterface ''eth1'' ''10.0.1.2'']
       [mkRoute ''192.168.2.0'' ''-'' 0, mkRoute ''192.168.1.0'' ''R1'' 1]"

definition fallbackDevices :: "Device list" where
  "fallbackDevices =
     [endpointDevice ''PC1'' ''PC1'' PC ''192.168.1.10'',
      fallbackR1,
      mkRouter ''R2'' ''192.168.3.1''
        [mkInterface ''LAN'' ''192.168.3.1'', mkInterface ''eth1'' ''10.0.0.2'']
        [mkRoute ''192.168.2.0'' ''R3'' 1],
      fallbackR3,
      endpointDevice ''PC2'' ''PC2'' PC ''192.168.2.10'']"

definition fallbackLinks :: "Connection list" where
  "fallbackLinks = [mkLink ''PC1'' ''R1'', mkLink ''R1'' ''R3'', mkLink ''R3'' ''PC2'']"

text \<open>
  Rewriting the configured mask and the stored subnet of every interface of a device,
  and the same on the device a hop forwards to.
\<close>

definition remask ::
  "(NetworkInterface \<Rightarrow> string option) \<Rightarrow> (NetworkInterface \<Rightarrow> string option) \<Rightarrow> Device \<Rightarrow> Device" where
  "remask newMask newSubnet d =
     d\<lparr>interfaces :=
          map (\<lambda>i. i\<lparr>iface_subnetMask := newMask i, iface_subnet := newSubnet i\<rparr>)
              (interfaces d)\<rparr>"









section \<open>Properties\<close>

subsection \<open>Digits, numbers and dotted strings\<close>








lemma digit_not_space: "is_digit_in 10 c \<Longrightarrow> \<not> is_js_space c"
  by (auto simp: is_digit_in_def digit_value_def is_js_space_def Let_def split: if_splits)

lemma digit_facts:
  assumes "is_digit_in 10 c"
  shows "c \<noteq> CHR ''-''" "c \<noteq> CHR ''+''" "c \<noteq> CHR ''x''" "c \<noteq> CHR ''X''"
    "c \<noteq> CHR ''o''" "c \<noteq> CHR ''O''" "c \<noteq> CHR ''b''" "c \<noteq> CHR ''B''" "c \<noteq> CHR ''I''"
    "c \<noteq> CHR ''.''"
  using assms by (auto simp: is_digit_in_def digit_value_def)



lemma js_parseInt_digits:
  assumes "g \<noteq> []" and "list_all (is_digit_in 10) g"
  shows "js_parseInt g = Some (int (digits_value 10 g))"
proof -
  from assms obtain c cs where g: "g = c # cs" by (cases g) auto
  with assms have c: "is_digit_in 10 c" by simp
  have nohex: "take 2 g \<noteq> ''0x''" "take 2 g \<noteq> ''0X''"
    using assms(2) g by (cases cs; auto dest: digit_facts)+
  have tw: "takeWhile (is_digit_in 10) g = g"
    using assms(2) by (simp add: takeWhile_eq_all_conv list_all_iff)
  have s1: "dropWhile is_js_space g = g"
    using digit_not_space [OF c] by (simp add: g)
  have neg: "(case g of [] \<Rightarrow> False | c # _ \<Rightarrow> c = CHR ''-'') = False"
    using digit_facts [OF c] by (simp add: g)
  have s2: "(case g of [] \<Rightarrow> g | c # cs \<Rightarrow> if c = CHR ''+'' \<or> c = CHR ''-'' then cs else g) = g"
    using digit_facts [OF c] by (simp add: g)
  have hex: "(take 2 g = ''0x'' \<or> take 2 g = ''0X'') = False"
    using nohex by simp
  show ?thesis
    unfolding js_parseInt_def Let_def s1 neg s2 hex if_False tw using assms(1) by simp
qed



subsection \<open>Splitting and joining at dots\<close>

lemma split_dot_nonempty: "split_dot s \<noteq> []"
  by (induction s) (auto split: list.splits)








subsection \<open>The operator \<open>&\<close> on octets\<close>








subsection \<open>The two address checks\<close>

text \<open>Every address that \<open>validateIPAddress\<close> accepts passes the format check \<open>validateIP\<close>.\<close>

lemma first_out_of_range_None:
  "first_out_of_range i segs = None \<Longrightarrow> Some v \<in> set segs \<Longrightarrow> 0 \<le> v \<and> v \<le> 255"
  by (induction i segs rule: first_out_of_range.induct) (auto split: if_splits)

lemma validate_strict_imp_lax:
  assumes "validateIPAddress ip = None"
  shows "validateIP ip"
proof -
  from assms have pat: "matches_ipPattern ip"
    by (auto simp: validateIPAddress_def split: if_splits)
  with assms have rng: "first_out_of_range 0 (map js_parseInt (split_dot ip)) = None"
    by (auto simp: validateIPAddress_def Let_def split: if_splits option.splits)
  from pat have len: "length (split_dot ip) = 4"
    and groups: "\<forall>g \<in> set (split_dot ip). g \<noteq> [] \<and> list_all (is_digit_in 10) g"
    by (auto simp: matches_ipPattern_def Let_def list_all_iff)
  have "\<forall>part \<in> set (split_dot ip).
          (case js_parseInt part of None \<Rightarrow> False | Some num \<Rightarrow> 0 \<le> num \<and> num \<le> 255)"
  proof
    fix part assume p: "part \<in> set (split_dot ip)"
    with groups have pi: "js_parseInt part = Some (int (digits_value 10 part))"
      by (simp add: js_parseInt_digits)
    with p have "Some (int (digits_value 10 part)) \<in> set (map js_parseInt (split_dot ip))"
      by force
    from first_out_of_range_None [OF rng this] pi
    show "case js_parseInt part of None \<Rightarrow> False | Some num \<Rightarrow> 0 \<le> num \<and> num \<le> 255"
      by simp
  qed
  with len show ?thesis by (simp add: validateIP_def Let_def list_all_iff)
qed

subsection \<open>Subnet derivation\<close>




subsection \<open>Early failures of \<open>simulateRouting\<close>\<close>




lemma find_first_in_set: "\<exists>d \<in> set xs. P d \<Longrightarrow> \<exists>d. find P xs = Some d \<and> d \<in> set xs \<and> P d"
  by (induction xs) auto

text \<open>
  C5. For an address \<open>A\<close> that \<open>validateIPAddress\<close> accepts and that some device of the
  snapshot has, \<open>simulateRouting\<close> from \<open>A\<close> to \<open>A\<close> succeeds with the one-element path
  holding the name of that device (the first device with address \<open>A\<close>, the one
  \<open>devices.find\<close> returns).
\<close>

theorem same_address_single_path:
  assumes "validateIPAddress A = None" and "\<exists>d \<in> set devices. dev_ip d = A"
  shows "\<exists>d \<in> set devices. dev_ip d = A \<and> find (\<lambda>d. dev_ip d = A) devices = Some d \<and>
           simulateRouting devices connections A A showSteps =
             Inr \<lparr>success = True, path = [dev_name d], message = SameDevice, steps = []\<rparr>"
proof -
  from assms(1) have v: "validateIP A" by (rule validate_strict_imp_lax)
  from find_first_in_set [of devices "\<lambda>d. dev_ip d = A"] assms(2)
  obtain d where d: "find (\<lambda>d. dev_ip d = A) devices = Some d" "d \<in> set devices" "dev_ip d = A"
    by blast
  with v show ?thesis by (auto simp: simulateRouting_def)
qed

theorem same_address_single_path_witness:
  "validateIPAddress ''192.168.1.10'' = None \<and>
   simulateRouting [endpointDevice ''d0'' ''R'' Router ''192.168.1.1'',
                    endpointDevice ''d1'' ''PC1'' PC ''192.168.1.10''] []
     ''192.168.1.10'' ''192.168.1.10'' False =
     Inr \<lparr>success = True, path = [''PC1''], message = SameDevice, steps = []\<rparr>"
proof -
  have v: "validateIPAddress ''192.168.1.10'' = None" by code_simp
  have e: "\<exists>d \<in> set [endpointDevice ''d0'' ''R'' Router ''192.168.1.1'',
                    endpointDevice ''d1'' ''PC1'' PC ''192.168.1.10'']. dev_ip d = ''192.168.1.10''"
    by (simp add: endpointDevice_def)
  from same_address_single_path [OF v e, of "[]" False] v show ?thesis
    by (auto simp: endpointDevice_def)
qed



subsection \<open>The DNS and HTTP round trips\<close>





subsection \<open>The HTTP handler\<close>





subsection \<open>Backbone allocation\<close>













subsection \<open>Physical links along a successful path\<close>

lemma find_SomeD: "find P xs = Some x \<Longrightarrow> x \<in> set xs \<and> P x"
  by (induction xs) (auto split: if_splits)

lemma linkedI:
  "da \<in> set devices \<Longrightarrow> db \<in> set devices \<Longrightarrow> hasPhysicalConnection da db connections
   \<Longrightarrow> linked devices connections (dev_name da) (dev_name db)"
  unfolding linked_def by blast

lemma chain_snoc:
  "chain devices connections p \<Longrightarrow> p \<noteq> [] \<Longrightarrow> linked devices connections (last p) b
   \<Longrightarrow> chain devices connections (p @ [b])"
  by (induction devices connections p rule: chain.induct) auto

lemma chain_nth:
  "chain devices connections p \<Longrightarrow> Suc i < length p
   \<Longrightarrow> linked devices connections (p ! i) (p ! Suc i)"
proof (induction devices connections p arbitrary: i rule: chain.induct)
  case (3 devices connections a b rest)
  then show ?case by (cases i) auto
qed auto

lemma tryRoutes_Some:
  "tryRoutes devices connections cur destIP rs failed = (Some r, failed')
   \<Longrightarrow> r \<in> set rs \<and> checkRoute devices connections cur destIP r = None"
  by (induction rs arbitrary: failed) (auto split: option.splits)

lemma checkRoute_direct:
  assumes "checkRoute devices connections cur destIP r = None" and "isDirect (nextHop r)"
  shows "\<exists>destDevice. find (\<lambda>d. dev_ip d = destIP) devices = Some destDevice \<and>
           hasPhysicalConnection cur destDevice connections"
  using assms by (auto simp: checkRoute_def split: option.splits if_splits)

lemma checkRoute_forward:
  assumes "checkRoute devices connections cur destIP r = None" and "\<not> isDirect (nextHop r)"
  shows "\<exists>nextRouter. findNextRouter devices (nextHop r) = Some nextRouter \<and>
           dev_type nextRouter = Router \<and> hasPhysicalConnection cur nextRouter connections"
  using assms by (auto simp: checkRoute_def split: option.splits if_splits)

lemma findNextRouter_in: "findNextRouter devices h = Some d \<Longrightarrow> d \<in> set devices"
  by (auto simp: findNextRouter_def split: option.splits dest: find_SomeD)

lemma endpointHop_forward:
  assumes "endpointHop devices connections showSteps cur p st = Forward (Some next) st'"
  shows "next \<in> set devices \<and> hasPhysicalConnection cur next connections"
  using assms
  by (auto simp: endpointHop_def findGateway_def Let_def split: option.splits if_splits
      dest: find_SomeD)

lemma endpointHop_no_success:
  "endpointHop devices connections showSteps cur p st = Finished (Inr r) \<Longrightarrow> \<not> success r"
  by (auto simp: endpointHop_def Let_def split: option.splits if_splits)

lemma followRoute_forward:
  assumes "followRoute devices destIP showSteps cur hc p st route failed = Forward dopt st'"
  shows "\<not> isDirect (nextHop route) \<and> dopt = findNextRouter devices (nextHop route)"
  using assms by (auto simp: followRoute_def Let_def split: option.splits if_splits)

lemma followRoute_finished:
  assumes "followRoute devices destIP showSteps cur hc p st route failed = Finished (Inr r)"
  shows "isDirect (nextHop route) \<and> success r \<and>
         (\<exists>dd. find (\<lambda>d. dev_ip d = destIP) devices = Some dd \<and> path r = p @ [dev_name dd])"
  using assms by (auto simp: followRoute_def Let_def split: option.splits if_splits)

lemma routerHop_forward:
  assumes "routerHop devices connections destIP showSteps cur hc p st = Forward (Some next) st'"
  shows "next \<in> set devices \<and> hasPhysicalConnection cur next connections"
proof -
  from assms obtain table route failed where
    t: "tryRoutes devices connections cur destIP (sortedRoutes table destIP) [] = (Some route, failed)"
    and f: "followRoute devices destIP showSteps cur hc p st route failed = Forward (Some next) st'"
    by (auto simp: routerHop_def split: option.splits if_splits prod.splits)
  from tryRoutes_Some [OF t] have c: "checkRoute devices connections cur destIP route = None" ..
  from followRoute_forward [OF f] have nd: "\<not> isDirect (nextHop route)"
    and n: "findNextRouter devices (nextHop route) = Some next" by simp_all
  from checkRoute_forward [OF c nd] n findNextRouter_in [OF n] show ?thesis by auto
qed

lemma routerHop_success:
  assumes "routerHop devices connections destIP showSteps cur hc p st = Finished (Inr r)"
    and "success r"
  shows "\<exists>dd \<in> set devices. path r = p @ [dev_name dd] \<and> hasPhysicalConnection cur dd connections"
proof -
  from assms obtain table route failed where
    t: "tryRoutes devices connections cur destIP (sortedRoutes table destIP) [] = (Some route, failed)"
    and f: "followRoute devices destIP showSteps cur hc p st route failed = Finished (Inr r)"
    by (auto simp: routerHop_def split: option.splits if_splits prod.splits)
  from tryRoutes_Some [OF t] have c: "checkRoute devices connections cur destIP route = None" ..
  from followRoute_finished [OF f] obtain dd where d: "isDirect (nextHop route)"
    and dd: "find (\<lambda>d. dev_ip d = destIP) devices = Some dd" "path r = p @ [dev_name dd]"
    by blast
  from checkRoute_direct [OF c d] dd find_SomeD [OF dd(1)] show ?thesis by auto
qed

lemma hop_forward:
  assumes "hop devices connections destIP showSteps cur hc p st = Forward (Some next) st'"
  shows "next \<in> set devices \<and> hasPhysicalConnection cur next connections"
  using assms endpointHop_forward routerHop_forward
  by (auto simp: hop_def split: if_splits)

lemma hop_success:
  assumes "hop devices connections destIP showSteps cur hc p st = Finished (Inr r)"
    and "success r"
  shows "\<exists>dd \<in> set devices. path r = p @ [dev_name dd] \<and> hasPhysicalConnection cur dd connections"
  using assms endpointHop_no_success routerHop_success
  by (auto simp: hop_def split: if_splits)

lemma routingLoop_chain:
  assumes "routingLoop devices connections destIP showSteps cur hc p st visited = Inr r"
    and "success r" and "cur \<in> set devices" and "p \<noteq> []" and "last p = dev_name cur"
    and "chain devices connections p"
  shows "chain devices connections (path r)"
  using assms
proof (induction devices connections destIP showSteps cur hc p st visited
    rule: routingLoop.induct)
  case (1 devices connections destIP showSteps cur hc p st visited)
  note prems = "1.prems"
  show ?case
  proof (cases "hc < maxHops")
    case False
    with prems(1,2) show ?thesis by (auto simp: routingLoop.simps)
  next
    case hc: True
    show ?thesis
    proof (cases "dev_ip cur = destIP")
      case True
      with hc prems(1,6) show ?thesis by (auto simp: routingLoop.simps)
    next
      case ip: False
      show ?thesis
      proof (cases "hop devices connections destIP showSteps cur hc p st")
        case (Finished res)
        with hc ip prems(1) have res: "res = Inr r" by (simp add: routingLoop.simps)
        from hop_success [OF Finished [unfolded res] prems(2)] obtain dd
          where "dd \<in> set devices" "path r = p @ [dev_name dd]"
            "hasPhysicalConnection cur dd connections" by blast
        with prems(3,4,5,6) show ?thesis
          by (auto intro!: chain_snoc linkedI)
      next
        case (Forward dopt st')
        show ?thesis
        proof (cases dopt)
          case None
          with Forward hc ip prems(1,2) show ?thesis by (auto simp: routingLoop.simps)
        next
          case (Some nxt)
          from hop_forward [OF Forward [unfolded Some]]
          have nx: "nxt \<in> set devices" "hasPhysicalConnection cur nxt connections" by simp_all
          show ?thesis
          proof (cases "dev_id nxt \<in> set visited")
            case True
            with Some Forward hc ip prems(1,2) show ?thesis by (auto simp: routingLoop.simps)
          next
            case False
            with Some Forward hc ip prems(1)
            have rec: "routingLoop devices connections destIP showSteps nxt (Suc hc)
                (p @ [dev_name nxt]) st' (visited @ [dev_id nxt]) = Inr r"
              by (simp add: routingLoop.simps)
            have ch: "chain devices connections (p @ [dev_name nxt])"
              using prems(3,4,5,6) nx by (auto intro!: chain_snoc linkedI)
            show ?thesis
              using "1.IH" [OF hc ip Forward Some False rec prems(2) nx(1) _ _ ch] by simp
          qed
        qed
      qed
    qed
  qed
qed

text \<open>
  C10. In every successful result of \<open>simulateRouting\<close> whose path has at least two
  elements, each element and its successor are the names of two devices of the snapshot
  with a physical connection between them.
\<close>

theorem successful_path_is_linked:
  assumes "simulateRouting devices connections sourceIP destIP showSteps = Inr r"
    and "success r" and "Suc i < length (path r)"
  shows "linked devices connections (path r ! i) (path r ! Suc i)"
proof -
  have "chain devices connections (path r)"
  proof (cases "find (\<lambda>d. dev_ip d = sourceIP) devices")
    case None
    with assms(1,2) show ?thesis by (auto simp: simulateRouting_def split: if_splits)
  next
    case (Some src)
    from find_SomeD [OF Some] have s: "src \<in> set devices" ..
    show ?thesis
    proof (cases "\<not> validateIP sourceIP \<or> \<not> validateIP destIP \<or> sourceIP = destIP")
      case True
      with Some assms(1,2) show ?thesis by (auto simp: simulateRouting_def split: if_splits)
    next
      case False
      with Some assms(1) have "routingLoop devices connections destIP showSteps src 0
          [dev_name src] [] [dev_id src] = Inr r"
        by (simp add: simulateRouting_def)
      from routingLoop_chain [OF this assms(2) s] show ?thesis by simp
    qed
  qed
  from chain_nth [OF this assms(3)] show ?thesis .
qed

subsection \<open>Route selection at a router\<close>

lemma tryRoutes_first_feasible:
  assumes "\<forall>x \<in> set pre. checkRoute devices connections cur destIP x \<noteq> None"
    and "checkRoute devices connections cur destIP route = None"
  shows "\<exists>failed. map Some failed = map (checkRoute devices connections cur destIP) pre \<and>
           tryRoutes devices connections cur destIP (pre @ route # post) failed0
             = (Some route, failed0 @ failed)"
  using assms
proof (induction pre arbitrary: failed0)
  case Nil
  then show ?case by simp
next
  case (Cons x pre)
  from Cons.prems obtain f where f: "checkRoute devices connections cur destIP x = Some f"
    by auto
  from Cons.IH [of "failed0 @ [f]"] Cons.prems obtain failed where
    "map Some failed = map (checkRoute devices connections cur destIP) pre"
    "tryRoutes devices connections cur destIP (pre @ route # post) (failed0 @ [f])
       = (Some route, (failed0 @ [f]) @ failed)" by auto
  with f have "map Some (f # failed) = map (checkRoute devices connections cur destIP) (x # pre) \<and>
           tryRoutes devices connections cur destIP ((x # pre) @ route # post) failed0
             = (Some route, failed0 @ (f # failed))" by simp
  then show ?case by blast
qed

lemma followRoute_steps:
  "followRoute devices destIP showSteps cur hc p st route failed =
     (if isDirect (nextHop route)
      then (case find (\<lambda>d. dev_ip d = destIP) devices of
              None \<Rightarrow> Finished (Inl TypeError)
            | Some destDevice \<Rightarrow>
                Finished (Inr \<lparr>success = True, path = p @ [dev_name destDevice],
                                message = Arrived hc,
                                steps =
                                  (if showSteps
                                   then st @ [\<lparr>router = dev_name cur,
                                                action =
                                                  (if failed = []
                                                   then RouteLookup (getNetwork destIP)
                                                          (nextHop route) (metric route)
                                                   else BackupRoute
                                                          (map (\<lambda>f. (failed_nextHop f,
                                                                      failed_metric f)) failed)
                                                          (nextHop route) (metric route)),
                                                routeEntry = Some route\<rparr>]
                                   else st)\<rparr>))
      else Forward (findNextRouter devices (nextHop route))
             (if showSteps
              then st @ [\<lparr>router = dev_name cur,
                           action =
                             (if failed = []
                              then RouteLookup (getNetwork destIP) (nextHop route) (metric route)
                              else BackupRoute
                                     (map (\<lambda>f. (failed_nextHop f, failed_metric f)) failed)
                                     (nextHop route) (metric route)),
                           routeEntry = Some route\<rparr>]
              else st))"
  by (cases "failed = []") (simp_all add: followRoute_def Let_def split: option.splits)

text \<open>
  C1 (as amended). At a router the candidates are the routes matching the destination
  (its address, or else its network), sorted by ascending metric with equal metrics in
  table order, and they are tried in that order. When the route after the prefix \<open>pre\<close>
  is the first usable one, it is the chosen route; one failure record, with the reason
  of \<open>checkRoute\<close>, is kept for each route of \<open>pre\<close>; the hop delivers or forwards along the
  chosen route; and the step trace gets the step of this hop only when \<open>showSteps\<close> is
  set: it carries the chosen route, and after a fallback it lists the routes of \<open>pre\<close>
  by next hop and metric, without their reasons.
\<close>

theorem first_feasible_route_is_chosen:
  assumes "routingTable currentDevice = Some table"
    and "sortedRoutes table destIP = pre @ route # post"
    and "\<forall>x \<in> set pre. checkRoute devices connections currentDevice destIP x \<noteq> None"
    and "checkRoute devices connections currentDevice destIP route = None"
  shows "sorted (map metric (sortedRoutes table destIP))
     \<and> (\<forall>k. filter (\<lambda>r. metric r = k) (sortedRoutes table destIP)
              = filter (\<lambda>r. metric r = k) (matchingRoutes table destIP))
     \<and> (\<exists>failed.
           map Some failed = map (checkRoute devices connections currentDevice destIP) pre \<and>
           tryRoutes devices connections currentDevice destIP (sortedRoutes table destIP) []
             = (Some route, failed) \<and>
           routerHop devices connections destIP showSteps currentDevice hopCount curPath curSteps
             = (if isDirect (nextHop route)
                then (case find (\<lambda>d. dev_ip d = destIP) devices of
                        None \<Rightarrow> Finished (Inl TypeError)
                      | Some destDevice \<Rightarrow>
                          Finished (Inr \<lparr>success = True,
                                          path = curPath @ [dev_name destDevice],
                                          message = Arrived hopCount,
                                          steps =
                                            (if showSteps
                                             then curSteps @
                                                  [\<lparr>router = dev_name currentDevice,
                                                    action =
                                                      (if failed = []
                                                       then RouteLookup (getNetwork destIP)
                                                              (nextHop route) (metric route)
                                                       else BackupRoute
                                                              (map (\<lambda>f. (failed_nextHop f,
                                                                          failed_metric f))
                                                                   failed)
                                                              (nextHop route) (metric route)),
                                                    routeEntry = Some route\<rparr>]
                                             else curSteps)\<rparr>))
                else Forward (findNextRouter devices (nextHop route))
                       (if showSteps
                        then curSteps @
                             [\<lparr>router = dev_name currentDevice,
                               action =
                                 (if failed = []
                                  then RouteLookup (getNetwork destIP) (nextHop route)
                                         (metric route)
                                  else BackupRoute
                                         (map (\<lambda>f. (failed_nextHop f, failed_metric f)) failed)
                                         (nextHop route) (metric route)),
                               routeEntry = Some route\<rparr>]
                        else curSteps)))"
proof (intro conjI allI)
  show "sorted (map metric (sortedRoutes table destIP))"
    by (simp add: sortedRoutes_def)
next
  fix k
  show "filter (\<lambda>r. metric r = k) (sortedRoutes table destIP)
          = filter (\<lambda>r. metric r = k) (matchingRoutes table destIP)"
    by (simp add: sortedRoutes_def sort_key_stable)
next
  from tryRoutes_first_feasible [OF assms(3,4), of post "[]"] obtain failed where
    f: "map Some failed = map (checkRoute devices connections currentDevice destIP) pre"
    and t: "tryRoutes devices connections currentDevice destIP (pre @ route # post) []
              = (Some route, failed)"
    by auto
  from assms(2) have ne: "sortedRoutes table destIP \<noteq> []" by simp
  then have m: "matchingRoutes table destIP \<noteq> []" by (auto simp: sortedRoutes_def)
  then have tb: "table \<noteq> []" by (auto simp: matchingRoutes_def Let_def)
  have "routerHop devices connections destIP showSteps currentDevice hopCount curPath curSteps
      = followRoute devices destIP showSteps currentDevice hopCount curPath curSteps route failed"
    using assms(1,2) t m tb by (simp add: routerHop_def)
  with f t assms(2) show "\<exists>failed.
           map Some failed = map (checkRoute devices connections currentDevice destIP) pre \<and>
           tryRoutes devices connections currentDevice destIP (sortedRoutes table destIP) []
             = (Some route, failed) \<and>
           routerHop devices connections destIP showSteps currentDevice hopCount curPath curSteps
             = (if isDirect (nextHop route)
                then (case find (\<lambda>d. dev_ip d = destIP) devices of
                        None \<Rightarrow> Finished (Inl TypeError)
                      | Some destDevice \<Rightarrow>
                          Finished (Inr \<lparr>success = True,
                                          path = curPath @ [dev_name destDevice],
                                          message = Arrived hopCount,
                                          steps =
                                            (if showSteps
                                             then curSteps @
                                                  [\<lparr>router = dev_name currentDevice,
                                                    action =
                                                      (if failed = []
                                                       then RouteLookup (getNetwork destIP)
                                                              (nextHop route) (metric route)
                                                       else BackupRoute
                                                              (map (\<lambda>f. (failed_nextHop f,
                                                                          failed_metric f))
                                                                   failed)
                                                              (nextHop route) (metric route)),
                                                    routeEntry = Some route\<rparr>]
                                             else curSteps)\<rparr>))
                else Forward (findNextRouter devices (nextHop route))
                       (if showSteps
                        then curSteps @
                             [\<lparr>router = dev_name currentDevice,
                               action =
                                 (if failed = []
                                  then RouteLookup (getNetwork destIP) (nextHop route)
                                         (metric route)
                                  else BackupRoute
                                         (map (\<lambda>f. (failed_nextHop f, failed_metric f)) failed)
                                         (nextHop route) (metric route)),
                               routeEntry = Some route\<rparr>]
                        else curSteps))"
    by (intro exI [of _ failed]) (simp only: followRoute_steps simp_thms)
qed

theorem first_feasible_route_is_chosen_witness:
  "sortedRoutes [viaR3, viaR2, mkRoute ''192.168.1.0'' ''-'' 0] ''192.168.2.10'' = [viaR2, viaR3]
   \<and> checkRoute fallbackDevices fallbackLinks fallbackR1 ''192.168.2.10'' viaR2
       = Some \<lparr>failed_nextHop = ''R2'', failed_metric = 1, reason = LinkDown\<rparr>
   \<and> checkRoute fallbackDevices fallbackLinks fallbackR1 ''192.168.2.10'' viaR3 = None
   \<and> routerHop fallbackDevices fallbackLinks ''192.168.2.10'' True fallbackR1 1
        [''PC1'', ''R1''] []
       = Forward (Some fallbackR3)
           [\<lparr>router = ''R1'', action = BackupRoute [(''R2'', 1)] ''R3'' 2,
             routeEntry = Some viaR3\<rparr>]"
proof -
  have t: "routingTable fallbackR1 = Some [viaR3, viaR2, mkRoute ''192.168.1.0'' ''-'' 0]"
    by (simp add: fallbackR1_def mkRouter_def)
  have s: "sortedRoutes [viaR3, viaR2, mkRoute ''192.168.1.0'' ''-'' 0] ''192.168.2.10''
             = [viaR2] @ viaR3 # []"
    by code_simp
  have c2: "checkRoute fallbackDevices fallbackLinks fallbackR1 ''192.168.2.10'' viaR2
       = Some \<lparr>failed_nextHop = ''R2'', failed_metric = 1, reason = LinkDown\<rparr>"
    by code_simp
  have c3: "checkRoute fallbackDevices fallbackLinks fallbackR1 ''192.168.2.10'' viaR3 = None"
    by code_simp
  have pre: "\<forall>x \<in> set [viaR2].
      checkRoute fallbackDevices fallbackLinks fallbackR1 ''192.168.2.10'' x \<noteq> None"
    using c2 by simp
  have d: "\<not> isDirect (nextHop viaR3)" by code_simp
  have n: "findNextRouter fallbackDevices (nextHop viaR3) = Some fallbackR3" by code_simp
  have nm: "dev_name fallbackR1 = ''R1''" "nextHop viaR3 = ''R3''" "metric viaR3 = 2"
    by (simp_all add: fallbackR1_def mkRouter_def viaR3_def mkRoute_def)
  have "\<exists>failed.
      map Some failed
          = map (checkRoute fallbackDevices fallbackLinks fallbackR1 ''192.168.2.10'') [viaR2] \<and>
      routerHop fallbackDevices fallbackLinks ''192.168.2.10'' True fallbackR1 1
              [''PC1'', ''R1''] []
            = Forward (findNextRouter fallbackDevices (nextHop viaR3))
                ([] @ [\<lparr>router = dev_name fallbackR1,
                  action =
                    (if failed = []
                     then RouteLookup (getNetwork ''192.168.2.10'') (nextHop viaR3) (metric viaR3)
                     else BackupRoute (map (\<lambda>f. (failed_nextHop f, failed_metric f)) failed)
                            (nextHop viaR3) (metric viaR3)),
                  routeEntry = Some viaR3\<rparr>])"
    using first_feasible_route_is_chosen [OF t s pre c3, of True 1 "[''PC1'', ''R1'']" "[]"] d
    by (simp only: if_False if_True simp_thms) blast
  then obtain failed where
    f: "map Some failed
          = map (checkRoute fallbackDevices fallbackLinks fallbackR1 ''192.168.2.10'') [viaR2]"
    and h: "routerHop fallbackDevices fallbackLinks ''192.168.2.10'' True fallbackR1 1
              [''PC1'', ''R1''] []
            = Forward (findNextRouter fallbackDevices (nextHop viaR3))
                ([] @ [\<lparr>router = dev_name fallbackR1,
                  action =
                    (if failed = []
                     then RouteLookup (getNetwork ''192.168.2.10'') (nextHop viaR3) (metric viaR3)
                     else BackupRoute (map (\<lambda>f. (failed_nextHop f, failed_metric f)) failed)
                            (nextHop viaR3) (metric viaR3)),
                  routeEntry = Some viaR3\<rparr>])"
    by blast
  from f c2 have "failed = [\<lparr>failed_nextHop = ''R2'', failed_metric = 1, reason = LinkDown\<rparr>]"
    by (cases failed) auto
  with h n nm s c2 c3 show ?thesis by simp
qed

text \<open>
  The claim as written fails on the trace: the route through \<open>R2\<close> fails for a missing
  link and the route through \<open>R3\<close> is taken, yet the trace of the call as every caller
  makes it (\<open>showSteps\<close> left at \<open>false\<close>) is empty, and with \<open>showSteps\<close> set the step of
  \<open>R1\<close> names \<open>R2\<close> and its metric but no reason.
\<close>

theorem fallback_trace_counterexample:
  "checkRoute fallbackDevices fallbackLinks fallbackR1 ''192.168.2.10'' viaR2
     = Some \<lparr>failed_nextHop = ''R2'', failed_metric = 1, reason = LinkDown\<rparr>
   \<and> simulateRouting fallbackDevices fallbackLinks ''192.168.1.10'' ''192.168.2.10'' False
       = Inr \<lparr>success = True, path = [''PC1'', ''R1'', ''R3'', ''PC2''], message = Arrived 2,
              steps = []\<rparr>
   \<and> simulateRouting fallbackDevices fallbackLinks ''192.168.1.10'' ''192.168.2.10'' True
       = Inr \<lparr>success = True, path = [''PC1'', ''R1'', ''R3'', ''PC2''], message = Arrived 2,
              steps =
                [\<lparr>router = ''PC1'', action = SendToGateway ''PC PC1'' ''R1'',
                  routeEntry = None\<rparr>,
                 \<lparr>router = ''R1'', action = BackupRoute [(''R2'', 1)] ''R3'' 2,
                  routeEntry = Some viaR3\<rparr>,
                 \<lparr>router = ''R3'', action = RouteLookup ''192.168.2.0'' ''-'' 0,
                  routeEntry = Some (mkRoute ''192.168.2.0'' ''-'' 0)\<rparr>]\<rparr>"
  by code_simp

subsection \<open>Subnet masks play no part in routing\<close>

declare routingLoop.simps [simp del]

lemma remask_fields [simp]:
  "dev_id (remask m s d) = dev_id d"
  "dev_name (remask m s d) = dev_name d"
  "dev_type (remask m s d) = dev_type d"
  "dev_ip (remask m s d) = dev_ip d"
  "routingTable (remask m s d) = routingTable d"
  by (simp_all add: remask_def)






lemma hasPhysicalConnection_remask [simp]:
  "hasPhysicalConnection (remask m s a) (remask m' s' b) c = hasPhysicalConnection a b c"
  by (simp add: hasPhysicalConnection_def)

lemma hasCommonNetwork_remask [simp]:
  "hasCommonNetwork (remask m s a) (remask m s b) = hasCommonNetwork a b"
  by (simp add: hasCommonNetwork_def remask_def list_ex_iff)



lemma endpointLabel_remask [simp]: "endpointLabel (remask m s d) = endpointLabel d"
  by (simp add: endpointLabel_def)








subsection \<open>Routing loops\<close>
















subsection \<open>Concrete instances\<close>


theorem successful_path_is_linked_witness:
  "simulateRouting fallbackDevices fallbackLinks ''192.168.1.10'' ''192.168.2.10'' False
     = Inr \<lparr>success = True, path = [''PC1'', ''R1'', ''R3'', ''PC2''], message = Arrived 2,
            steps = []\<rparr>
   \<and> linked fallbackDevices fallbackLinks ''R1'' ''R3''
   \<and> linked fallbackDevices fallbackLinks ''R3'' ''PC2''"
proof -
  have e: "simulateRouting fallbackDevices fallbackLinks ''192.168.1.10'' ''192.168.2.10'' False
     = Inr \<lparr>success = True, path = [''PC1'', ''R1'', ''R3'', ''PC2''], message = Arrived 2,
            steps = []\<rparr>" by code_simp
  from successful_path_is_linked [OF e, of 1]
  have a: "linked fallbackDevices fallbackLinks ''R1'' ''R3''" by simp
  from successful_path_is_linked [OF e, of 2]
  have b: "linked fallbackDevices fallbackLinks ''R3'' ''PC2''" by simp
  from e a b show ?thesis by simp
qed


end
